theory Spec2Isabelle
  imports Main
begin

section \<open>The workflow state machine of \<open>tasks.py\<close>\<close>

text \<open>
  \<open>BotStateMachine.states\<close> is a list of seven state names; the names are an
  enumeration here. \<open>trigger\<close> has the seven names that \<open>BotStateMachine.__init__\<close>
  passes to \<open>add_transition\<close>: the trigger methods that \<open>run\<close> calls. The machine has
  further trigger methods, which the constructor \<open>Machine(...)\<close> adds by itself; they are
  \<open>machine_trigger\<close> below.
\<close>

datatype state = start | login | process_data | export | log_out | error | completed

datatype trigger =
    proceed_to_login | process_sales_data | export_results | proceed_to_log_out
  | complete_task | handle_error | recover

text \<open>The second argument of \<open>add_transition\<close>: a state name, or the wildcard \<open>"*"\<close>.\<close>

datatype source = Wildcard | From state

text \<open>
  Everything that \<open>run\<close> can catch with \<open>except Exception\<close>: the error of a trigger
  fired from a state it is not declared for, the \<open>KeyError\<close> of a row without the
  subscripted column, and whatever an external library call raises (carrying its
  message).
\<close>

datatype exn =
    IllegalTransitionError trigger state
  | KeyError string
  | ActionError string

definition states :: "state list" where
  "states = [start, login, process_data, export, log_out, error, completed]"

definition initial :: state where
  "initial = start"

text \<open>
  The seven rows that the \<open>add_transition\<close> calls of \<open>BotStateMachine.__init__\<close> declare
  (lines 39 to 45), in the order of the calls.
\<close>

definition transitions :: "(trigger \<times> source \<times> state) list" where
  "transitions =
    [(proceed_to_login, From start, login),
     (process_sales_data, From login, process_data),
     (export_results, From process_data, export),
     (proceed_to_log_out, From export, log_out),
     (complete_task, From log_out, completed),
     (handle_error, Wildcard, error),
     (recover, From error, start)]"

fun source_matches :: "source \<Rightarrow> state \<Rightarrow> bool" where
  "source_matches Wildcard cur = True"
| "source_matches (From s) cur = (s = cur)"

fun lookup_transition :: "('t \<times> source \<times> state) list \<Rightarrow> 't \<Rightarrow> state \<Rightarrow> state option" where
  "lookup_transition [] t cur = None"
| "lookup_transition ((t', src, dst) # rest) t cur =
     (if t' = t \<and> source_matches src cur then Some dst else lookup_transition rest t cur)"

text \<open>
  Modelled from the spec: the dispatch of a trigger is done by the class \<open>Machine\<close> of
  the third-party package \<open>transitions\<close>, which is not among the sources. Section 4.1:
  \<open>fire(trigger)\<close> validates that the current state matches the trigger's declared
  source (or the trigger is wildcard-sourced), then sets the current state to the
  trigger's destination; it fails with an \<open>IllegalTransitionError\<close> if the current
  state does not match any declared source for that trigger name. The result is the
  new current state, or the error with the state left as it was.
\<close>

definition fire :: "trigger \<Rightarrow> state \<Rightarrow> exn + state" where
  "fire t cur =
     (case lookup_transition transitions t cur of
        None \<Rightarrow> Inl (IllegalTransitionError t cur)
      | Some dst \<Rightarrow> Inr dst)"

text \<open>
  Line 36 constructs the machine as \<open>Machine(model=self, states=..., initial="start")\<close>,
  without \<open>auto_transitions=False\<close>. The package's default is \<open>auto_transitions=True\<close>:
  for every state \<open>s\<close> the constructor adds a trigger \<open>to_s\<close> with the wildcard as its
  source and \<open>s\<close> as its destination. So the machine has fourteen trigger methods: the
  seven declared ones and \<open>to_start\<close>, \<open>to_login\<close>, ..., \<open>to_completed\<close>.
\<close>

datatype machine_trigger = Declared trigger | To_state state

definition auto_transitions :: "(machine_trigger \<times> source \<times> state) list" where
  "auto_transitions = map (\<lambda>s. (To_state s, Wildcard, s)) states"

text \<open>All the transitions of the machine after \<open>BotStateMachine.__init__\<close>.\<close>

definition machine_transitions :: "(machine_trigger \<times> source \<times> state) list" where
  "machine_transitions =
     auto_transitions @ map (\<lambda>(t, src, dst). (Declared t, src, dst)) transitions"

text \<open>
  The state a trigger method of the machine leads to from the current state, or \<open>None\<close>
  when the machine has no transition for it there (the package raises).
\<close>

definition machine_next :: "machine_trigger \<Rightarrow> state \<Rightarrow> state option" where
  "machine_next mt cur = lookup_transition machine_transitions mt cur"


section \<open>The controller \<open>RobotSpareBinBot\<close>\<close>

subsection \<open>The outside world\<close>

text \<open>
  The calls into the browser, HTTP, Excel and PDF libraries, with the arguments the
  source passes. A row of the worksheet is a dictionary from column names to cell
  contents (the text that \<open>str\<close> gives).
\<close>

type_synonym row = "string \<rightharpoonup> string"

datatype ext_call =
    Browser_configure
  | Browser_goto string
  | Browser_page
  | Page_fill string string
  | Page_click string
  | Page_select_option string string
  | Page_screenshot string
  | Locator_inner_html string
  | HTTP_new
  | HTTP_download string
  | Files_new
  | Open_workbook string
  | Read_worksheet_as_table string
  | Close_workbook
  | PDF_new
  | Html_to_pdf string

text \<open>
  The method a call is made from; for \<open>fill_and_submit_sales_form\<close>, also the
  position in the worksheet of the row it was called for. Within one run every call is
  made at most once from each place, so a world that answers by place and call covers
  every behaviour of the libraries during a run.
\<close>

datatype site =
    In_open_the_intranet_website
  | In_log_in
  | In_download_excel_file
  | In_fill_and_submit_sales_form nat
  | In_fill_form_with_excel_data
  | In_collect_results
  | In_export_as_pdf
  | In_log_out

text \<open>
  The world: whether a call raises (\<open>Some e\<close>) or returns (\<open>None\<close>), the table
  that \<open>read_worksheet_as_table\<close> returns, and the credentials read from the environment.
\<close>

record world =
  outcome :: "site \<Rightarrow> ext_call \<Rightarrow> exn option"
  worksheet :: "row list"
  USERNAME :: string
  PASSWORD :: string

subsection \<open>The state of a run\<close>

datatype log_entry =
    Info string
  | Warning string exn
  | Error string exn

text \<open>
  \<open>state_machine\<close> is the current state of the bot's \<open>BotStateMachine\<close> (its table is
  \<open>transitions\<close>); \<open>logged\<close> is what the \<open>logging\<close> calls have written, oldest first.
  Two fields only observe the run: \<open>fired\<close> lists the triggers called, and \<open>calls\<close> the
  external calls made, each with its place and what it answered.
\<close>

record bot =
  state_machine :: state
  logged :: "log_entry list"
  fired :: "trigger list"
  calls :: "(site \<times> ext_call \<times> exn option) list"

text \<open>A statement runs on the bot and either returns (\<open>None\<close>) or raises.\<close>

type_synonym stmt = "bot \<Rightarrow> exn option \<times> bot"

fun block :: "stmt list \<Rightarrow> stmt" where
  "block [] s = (None, s)"
| "block (p # ps) s =
     (case p s of
        (None, s') \<Rightarrow> block ps s'
      | (Some e, s') \<Rightarrow> (Some e, s'))"

definition try_except :: "stmt \<Rightarrow> (exn \<Rightarrow> stmt) \<Rightarrow> stmt" where
  "try_except body handler s =
     (case body s of
        (None, s') \<Rightarrow> (None, s')
      | (Some e, s') \<Rightarrow> handler e s')"

definition raise :: "exn \<Rightarrow> stmt" where
  "raise e s = (Some e, s)"

definition logging_info :: "string \<Rightarrow> stmt" where
  "logging_info msg s = (None, s\<lparr>logged := logged s @ [Info msg]\<rparr>)"

definition logging_warning :: "string \<Rightarrow> exn \<Rightarrow> stmt" where
  "logging_warning msg e s = (None, s\<lparr>logged := logged s @ [Warning msg e]\<rparr>)"

definition logging_error :: "string \<Rightarrow> exn \<Rightarrow> stmt" where
  "logging_error msg e s = (None, s\<lparr>logged := logged s @ [Error msg e]\<rparr>)"

text \<open>An external call: the world decides whether it raises.\<close>

definition ext :: "world \<Rightarrow> site \<Rightarrow> ext_call \<Rightarrow> stmt" where
  "ext w st c s = (outcome w st c, s\<lparr>calls := calls s @ [(st, c, outcome w st c)]\<rparr>)"

text \<open>\<open>sales_rep[key]\<close>: the value goes to the rest of the statement, a missing key raises.\<close>

definition subscript :: "row \<Rightarrow> string \<Rightarrow> (string \<Rightarrow> stmt) \<Rightarrow> stmt" where
  "subscript r key k s =
     (case r key of
        None \<Rightarrow> (Some (KeyError key), s)
      | Some v \<Rightarrow> k v s)"

text \<open>
  A trigger method of the state machine, such as \<open>self.state_machine.proceed_to_login()\<close>.
\<close>

definition fire_trigger :: "trigger \<Rightarrow> stmt" where
  "fire_trigger t s =
     (case fire t (state_machine s) of
        Inl e \<Rightarrow> (Some e, s\<lparr>fired := fired s @ [t]\<rparr>)
      | Inr dst \<Rightarrow> (None, s\<lparr>state_machine := dst, fired := fired s @ [t]\<rparr>))"

text \<open>\<open>RobotSpareBinBot.__init__\<close>: a new state machine, in its initial state.\<close>

definition new_bot :: bot where
  "new_bot = \<lparr>state_machine = initial, logged = [], fired = [], calls = []\<rparr>"

subsection \<open>The methods\<close>

definition open_the_intranet_website :: "world \<Rightarrow> stmt" where
  "open_the_intranet_website w =
     try_except
       (block
         [ext w In_open_the_intranet_website Browser_configure,
          ext w In_open_the_intranet_website (Browser_goto ''https://robotsparebinindustries.com/''),
          logging_info ''Navigated to intranet website.''])
       (\<lambda>e. block [logging_error ''Error opening the website: '' e, raise e])"

definition log_in :: "world \<Rightarrow> stmt" where
  "log_in w =
     try_except
       (block
         [ext w In_log_in Browser_page,
          ext w In_log_in (Page_fill ''#username'' (USERNAME w)),
          ext w In_log_in (Page_fill ''#password'' (PASSWORD w)),
          ext w In_log_in (Page_click ''button:text('Log in')''),
          logging_info ''Logged in successfully.''])
       (\<lambda>e. block [logging_error ''Login failed: '' e, raise e])"

definition download_excel_file :: "world \<Rightarrow> stmt" where
  "download_excel_file w =
     try_except
       (block
         [ext w In_download_excel_file HTTP_new,
          ext w In_download_excel_file
            (HTTP_download ''https://robotsparebinindustries.com/SalesData.xlsx''),
          logging_info ''Excel file downloaded successfully.''])
       (\<lambda>e. block [logging_error ''Failed to download Excel file: '' e, raise e])"

text \<open>
  \<open>fill_and_submit_sales_form\<close>; \<open>sales_form_steps\<close> is the body of its \<open>try\<close>. \<open>i\<close> is the
  position of \<open>sales_rep\<close> in the worksheet; it only selects the world's answers.
\<close>

definition sales_form_steps :: "world \<Rightarrow> nat \<Rightarrow> row \<Rightarrow> stmt" where
  "sales_form_steps w i sales_rep =
     block
       [ext w (In_fill_and_submit_sales_form i) Browser_page,
        subscript sales_rep ''First Name'' (\<lambda>v.
          ext w (In_fill_and_submit_sales_form i) (Page_fill ''#firstname'' v)),
        subscript sales_rep ''Last Name'' (\<lambda>v.
          ext w (In_fill_and_submit_sales_form i) (Page_fill ''#lastname'' v)),
        subscript sales_rep ''Sales Target'' (\<lambda>v.
          ext w (In_fill_and_submit_sales_form i) (Page_select_option ''#salestarget'' v)),
        subscript sales_rep ''Sales'' (\<lambda>v.
          ext w (In_fill_and_submit_sales_form i) (Page_fill ''#salesresult'' v)),
        ext w (In_fill_and_submit_sales_form i) (Page_click ''text=Submit''),
        subscript sales_rep ''First Name'' (\<lambda>first.
          subscript sales_rep ''Last Name'' (\<lambda>last.
            logging_info (''Sales data submitted for: '' @ first @ '' '' @ last)))]"

definition fill_and_submit_sales_form :: "world \<Rightarrow> nat \<Rightarrow> row \<Rightarrow> stmt" where
  "fill_and_submit_sales_form w i sales_rep =
     try_except
       (sales_form_steps w i sales_rep)
       (\<lambda>e. logging_warning ''Error submitting sales form: '' e)"

text \<open>\<open>for row in worksheet\<close>, counting the rows from \<open>i\<close>.\<close>

fun for_rows :: "(nat \<Rightarrow> row \<Rightarrow> stmt) \<Rightarrow> nat \<Rightarrow> row list \<Rightarrow> stmt" where
  "for_rows f i [] s = (None, s)"
| "for_rows f i (r # rs) s =
     (case f i r s of
        (None, s') \<Rightarrow> for_rows f (Suc i) rs s'
      | (Some e, s') \<Rightarrow> (Some e, s'))"

definition fill_form_with_excel_data :: "world \<Rightarrow> stmt" where
  "fill_form_with_excel_data w =
     try_except
       (block
         [ext w In_fill_form_with_excel_data Files_new,
          ext w In_fill_form_with_excel_data (Open_workbook ''SalesData.xlsx''),
          ext w In_fill_form_with_excel_data (Read_worksheet_as_table ''data''),
          for_rows (fill_and_submit_sales_form w) 0 (worksheet w),
          ext w In_fill_form_with_excel_data Close_workbook])
       (\<lambda>e. block [logging_error ''Error processing Excel file: '' e, raise e])"

definition collect_results :: "world \<Rightarrow> stmt" where
  "collect_results w =
     try_except
       (block
         [ext w In_collect_results Browser_page,
          ext w In_collect_results (Page_screenshot ''output/sales_summary.png''),
          logging_info ''Screenshot captured.''])
       (\<lambda>e. block [logging_error ''Error taking screenshot: '' e, raise e])"

definition export_as_pdf :: "world \<Rightarrow> stmt" where
  "export_as_pdf w =
     try_except
       (block
         [ext w In_export_as_pdf Browser_page,
          ext w In_export_as_pdf (Locator_inner_html ''#sales-results''),
          ext w In_export_as_pdf PDF_new,
          ext w In_export_as_pdf (Html_to_pdf ''output/sales_results.pdf''),
          logging_info ''Sales results exported to PDF.''])
       (\<lambda>e. block [logging_error ''Error exporting PDF: '' e, raise e])"

definition log_out_action :: "world \<Rightarrow> stmt" where
  "log_out_action w =
     try_except
       (block
         [ext w In_log_out Browser_page,
          ext w In_log_out (Page_click ''text=Log out''),
          logging_info ''Logged out successfully.''])
       (\<lambda>e. block [logging_error ''Error during log out: '' e, raise e])"

definition run :: "world \<Rightarrow> stmt" where
  "run w =
     try_except
       (block
         [logging_info ''Starting the bot...'',
          fire_trigger proceed_to_login,
          open_the_intranet_website w,
          log_in w,
          fire_trigger process_sales_data,
          download_excel_file w,
          fill_form_with_excel_data w,
          fire_trigger export_results,
          collect_results w,
          export_as_pdf w,
          fire_trigger proceed_to_log_out,
          log_out_action w,
          fire_trigger complete_task,
          logging_info ''Bot completed successfully.''])
       (\<lambda>e. block [logging_error ''Unexpected error occurred: '' e, fire_trigger handle_error])"


subsection \<open>What a run leaves behind\<close>

text \<open>
  Whether a statement raises when started on a new bot. For the methods of the bot the
  answer is the same from any state, since only the world decides it.
\<close>

definition raises :: "stmt \<Rightarrow> exn option" where
  "raises p = fst (p new_bot)"

fun is_warning :: "log_entry \<Rightarrow> bool" where
  "is_warning (Warning msg e) = True"
| "is_warning (Info msg) = False"
| "is_warning (Error msg e) = False"

definition warnings :: "bot \<Rightarrow> log_entry list" where
  "warnings s = filter is_warning (logged s)"

text \<open>
  The positions of the rows for which \<open>fill_and_submit_sales_form\<close> was entered: its
  first statement is the call \<open>browser.page()\<close>.
\<close>

fun attempt_of :: "site \<times> ext_call \<times> exn option \<Rightarrow> nat list" where
  "attempt_of (In_fill_and_submit_sales_form i, Browser_page, r) = [i]"
| "attempt_of other = []"

definition submissions_attempted :: "bot \<Rightarrow> nat list" where
  "submissions_attempted s = concat (map attempt_of (calls s))"

text \<open>
  The files written by the two export calls that returned: \<open>page.screenshot(path=...)\<close>
  and \<open>pdf.html_to_pdf(..., path)\<close>.
\<close>

fun artifact_of :: "site \<times> ext_call \<times> exn option \<Rightarrow> string list" where
  "artifact_of (st, Page_screenshot path, None) = [path]"
| "artifact_of (st, Html_to_pdf path, None) = [path]"
| "artifact_of other = []"

definition artifacts :: "bot \<Rightarrow> string list" where
  "artifacts s = concat (map artifact_of (calls s))"

text \<open>What \<open>fill_and_submit_sales_form\<close> adds to the warnings for the row at position \<open>i\<close>.\<close>

definition warning_for :: "world \<Rightarrow> nat \<Rightarrow> row \<Rightarrow> log_entry list" where
  "warning_for w i r =
     (case raises (sales_form_steps w i r) of
        None \<Rightarrow> []
      | Some e \<Rightarrow> [Warning ''Error submitting sales form: '' e])"

text \<open>Two properties of statements used in the proofs below.\<close>

definition keeps :: "(bot \<Rightarrow> 'a) \<Rightarrow> stmt \<Rightarrow> bool" where
  "keeps f p = (\<forall>s. f (snd (p s)) = f s)"

definition same_outcome :: "stmt \<Rightarrow> bool" where
  "same_outcome p = (\<forall>s s'. fst (p s) = fst (p s'))"

subsection \<open>Example worlds\<close>

definition example_row :: row where
  "example_row =
     [''First Name'' \<mapsto> ''John'', ''Last Name'' \<mapsto> ''Smith'',
      ''Sales Target'' \<mapsto> ''15000'', ''Sales'' \<mapsto> ''14500'']"

text \<open>A world in which no call raises.\<close>

definition quiet_world :: "row list \<Rightarrow> world" where
  "quiet_world rows =
     \<lparr>outcome = (\<lambda>st c. None), worksheet = rows,
      USERNAME = ''maria'', PASSWORD = ''thoushallnotpass''\<rparr>"

text \<open>A world in which exactly one call raises.\<close>

definition world_failing_at :: "site \<Rightarrow> ext_call \<Rightarrow> row list \<Rightarrow> world" where
  "world_failing_at st0 c0 rows =
     \<lparr>outcome = (\<lambda>st c. if st = st0 \<and> c = c0 then Some (ActionError ''Timeout'') else None),
      worksheet = rows, USERNAME = ''maria'', PASSWORD = ''thoushallnotpass''\<rparr>"


section \<open>The transition table\<close>

lemma fire_handle_error: "fire handle_error s = Inr error"
  by (cases s) (simp_all add: fire_def transitions_def)

lemma fire_declared:
  "fire proceed_to_login start = Inr login"
  "fire process_sales_data login = Inr process_data"
  "fire export_results process_data = Inr export"
  "fire proceed_to_log_out export = Inr log_out"
  "fire complete_task log_out = Inr completed"
  "fire recover error = Inr start"
  by (simp_all add: fire_def transitions_def)

lemma fire_Inr_iff:
  "fire t s = Inr d \<longleftrightarrow>
     (t, s, d) \<in> {(proceed_to_login, start, login),
                  (process_sales_data, login, process_data),
                  (export_results, process_data, export),
                  (proceed_to_log_out, export, log_out),
                  (complete_task, log_out, completed),
                  (recover, error, start)}
     \<or> (t = handle_error \<and> d = error)"
  by (cases t; cases s) (auto simp add: fire_def transitions_def)

lemma fire_Inl_iff:
  "fire t s = Inl e \<longleftrightarrow>
     e = IllegalTransitionError t s \<and> t \<noteq> handle_error
     \<and> (t, s) \<notin> {(proceed_to_login, start), (process_sales_data, login),
                   (export_results, process_data), (proceed_to_log_out, export),
                   (complete_task, log_out), (recover, error)}"
  by (cases t; cases s) (auto simp add: fire_def transitions_def)

lemma fire_trigger_Inr:
  "fire t (state_machine b) = Inr d \<Longrightarrow>
     fire_trigger t b = (None, b\<lparr>state_machine := d, fired := fired b @ [t]\<rparr>)"
  by (simp add: fire_trigger_def)

lemma fire_trigger_Inl:
  "fire t (state_machine b) = Inl e \<Longrightarrow>
     fire_trigger t b = (Some e, b\<lparr>fired := fired b @ [t]\<rparr>)"
  by (simp add: fire_trigger_def)

lemma machine_next_To_state: "machine_next (To_state d) s = Some d"
  by (cases d)
    (simp_all add: machine_next_def machine_transitions_def auto_transitions_def states_def)

lemma machine_next_Declared:
  "machine_next (Declared t) s = (case fire t s of Inl e \<Rightarrow> None | Inr d \<Rightarrow> Some d)"
  by (cases t; cases s)
    (simp_all add: machine_next_def machine_transitions_def auto_transitions_def states_def
      fire_def transitions_def)

text \<open>
  C1 does not hold as stated. The seven declared rows are not the only transitions of
  the machine: the trigger \<open>to_start\<close>, which the constructor adds, leads from
  \<open>completed\<close> to \<open>start\<close>, and it is none of the declared rows. The machine has fourteen
  transitions.
\<close>

theorem auto_transition_counterexample:
  "machine_next (To_state start) completed = Some start
   \<and> (To_state start, From completed, start) \<notin>
        set (map (\<lambda>(t, src, dst). (Declared t, src, dst)) transitions)
   \<and> (To_state start, Wildcard, start) \<notin>
        set (map (\<lambda>(t, src, dst). (Declared t, src, dst)) transitions)
   \<and> length machine_transitions = 14"
  by (simp add: machine_next_To_state machine_transitions_def auto_transitions_def states_def
      transitions_def)

text \<open>
  C1, as amended. The \<open>add_transition\<close> calls declare seven rows. A declared trigger \<open>t\<close>
  fired in state \<open>s\<close> moves the machine to \<open>d\<close> exactly when \<open>(t, s, d)\<close> is one of the six
  rows with a named source, or \<open>t\<close> is \<open>handle_error\<close> (whose source is the wildcard, so
  \<open>s\<close> is any state) and \<open>d\<close> is \<open>error\<close>; firing it on the bot sets the bot's current
  state to that destination. Beside the declared triggers the machine has, for every
  state \<open>d'\<close>, the trigger \<open>to_d'\<close>, which is legal in every state and leads to \<open>d'\<close>:
  fourteen transitions in all.
\<close>

theorem declared_and_auto_transitions:
  "length transitions = 7
   \<and> (fire t s = Inr d \<longleftrightarrow>
        (t, s, d) \<in> {(proceed_to_login, start, login),
                     (process_sales_data, login, process_data),
                     (export_results, process_data, export),
                     (proceed_to_log_out, export, log_out),
                     (complete_task, log_out, completed),
                     (recover, error, start)}
        \<or> (t = handle_error \<and> d = error))
   \<and> (fire t (state_machine b) = Inr d \<longleftrightarrow>
        fire_trigger t b = (None, b\<lparr>state_machine := d, fired := fired b @ [t]\<rparr>))
   \<and> (machine_next (Declared t) s = Some d \<longleftrightarrow> fire t s = Inr d)
   \<and> (machine_next (To_state d') s = Some d \<longleftrightarrow> d' = d)
   \<and> length machine_transitions = 14"
proof -
  have "length transitions = 7"
    by (simp add: transitions_def)
  moreover have "fire t (state_machine b) = Inr d \<longleftrightarrow>
      fire_trigger t b = (None, b\<lparr>state_machine := d, fired := fired b @ [t]\<rparr>)"
  proof
    assume "fire t (state_machine b) = Inr d"
    then show "fire_trigger t b = (None, b\<lparr>state_machine := d, fired := fired b @ [t]\<rparr>)"
      by (rule fire_trigger_Inr)
  next
    assume r: "fire_trigger t b = (None, b\<lparr>state_machine := d, fired := fired b @ [t]\<rparr>)"
    show "fire t (state_machine b) = Inr d"
    proof (cases "fire t (state_machine b)")
      case (Inl e)
      then show ?thesis using r by (simp add: fire_trigger_def)
    next
      case (Inr d')
      then have "fire_trigger t b = (None, b\<lparr>state_machine := d', fired := fired b @ [t]\<rparr>)"
        by (rule fire_trigger_Inr)
      with r have "state_machine (b\<lparr>state_machine := d, fired := fired b @ [t]\<rparr>)
          = state_machine (b\<lparr>state_machine := d', fired := fired b @ [t]\<rparr>)"
        by simp
      then show ?thesis using Inr by simp
    qed
  qed
  moreover have "machine_next (Declared t) s = Some d \<longleftrightarrow> fire t s = Inr d"
    by (simp add: machine_next_Declared split: sum.splits)
  moreover have "machine_next (To_state d') s = Some d \<longleftrightarrow> d' = d"
    by (simp add: machine_next_To_state)
  moreover have "length machine_transitions = 14"
    by (simp add: machine_transitions_def auto_transitions_def states_def transitions_def)
  ultimately show ?thesis
    using fire_Inr_iff [of t s d] by simp
qed

text \<open>
  C2. A trigger other than the wildcard-sourced \<open>handle_error\<close>, fired in a state that
  is not its declared source, raises \<open>IllegalTransitionError\<close> and leaves the current
  state as it was (only the record of fired triggers grows). In particular \<open>recover\<close>
  raises in every state other than \<open>error\<close>.
\<close>

theorem undeclared_trigger_raises:
  assumes "t \<noteq> handle_error"
    and "(t, state_machine b) \<notin>
           {(proceed_to_login, start), (process_sales_data, login),
            (export_results, process_data), (proceed_to_log_out, export),
            (complete_task, log_out), (recover, error)}"
  shows "fire t (state_machine b) = Inl (IllegalTransitionError t (state_machine b))
    \<and> fire_trigger t b
        = (Some (IllegalTransitionError t (state_machine b)), b\<lparr>fired := fired b @ [t]\<rparr>)
    \<and> state_machine (snd (fire_trigger t b)) = state_machine b
    \<and> (state_machine b \<noteq> error \<longrightarrow>
          fire_trigger recover b
            = (Some (IllegalTransitionError recover (state_machine b)),
               b\<lparr>fired := fired b @ [recover]\<rparr>))"
proof -
  have a: "fire t (state_machine b) = Inl (IllegalTransitionError t (state_machine b))"
    using assms by (simp add: fire_Inl_iff)
  have b: "state_machine b \<noteq> error \<longrightarrow>
      fire recover (state_machine b) = Inl (IllegalTransitionError recover (state_machine b))"
    by (simp add: fire_Inl_iff)
  show ?thesis
    using a b by (simp add: fire_trigger_Inl)
qed

theorem undeclared_trigger_raises_witness:
  "fire complete_task login = Inl (IllegalTransitionError complete_task login)
   \<and> fire_trigger complete_task (new_bot\<lparr>state_machine := login\<rparr>)
       = (Some (IllegalTransitionError complete_task login),
          new_bot\<lparr>state_machine := login, fired := [complete_task]\<rparr>)
   \<and> fire_trigger recover (new_bot\<lparr>state_machine := login\<rparr>)
       = (Some (IllegalTransitionError recover login),
          new_bot\<lparr>state_machine := login, fired := [recover]\<rparr>)"
  using undeclared_trigger_raises [of complete_task "new_bot\<lparr>state_machine := login\<rparr>"]
  by (simp add: new_bot_def)

text \<open>
  C10. \<open>handle_error\<close> is legal from the two terminal states as well: from \<open>completed\<close>
  and from \<open>error\<close> it leads to \<open>error\<close>, and fired on a bot in any state it returns
  and leaves the bot in state \<open>error\<close>.
\<close>

theorem handle_error_from_terminal_states:
  "fire handle_error completed = Inr error
   \<and> fire handle_error error = Inr error
   \<and> fire_trigger handle_error b
       = (None, b\<lparr>state_machine := error, fired := fired b @ [handle_error]\<rparr>)"
  by (simp add: fire_handle_error fire_trigger_Inr)


section \<open>Blocks, handlers and loops\<close>

lemma fst_block_Cons:
  "fst (block (p # ps) s) = (if fst (p s) = None then fst (block ps (snd (p s))) else fst (p s))"
  by (cases "p s") (auto split: option.splits)

lemma snd_block_Cons:
  "snd (block (p # ps) s) = (if fst (p s) = None then snd (block ps (snd (p s))) else snd (p s))"
  by (cases "p s") (auto split: option.splits)

lemma fst_try_except:
  "fst (try_except b h s) =
     (case fst (b s) of None \<Rightarrow> None | Some e \<Rightarrow> fst (h e (snd (b s))))"
  by (cases "b s") (auto simp add: try_except_def split: option.splits)

lemma snd_try_except:
  "snd (try_except b h s) =
     (case fst (b s) of None \<Rightarrow> snd (b s) | Some e \<Rightarrow> snd (h e (snd (b s))))"
  by (cases "b s") (auto simp add: try_except_def split: option.splits)

lemma keepsD: "keeps f p \<Longrightarrow> f (snd (p s)) = f s"
  by (simp add: keeps_def)

lemma keeps_try_except:
  "keeps f b \<Longrightarrow> (\<And>e. keeps f (h e)) \<Longrightarrow> keeps f (try_except b h)"
  by (simp add: keeps_def snd_try_except split: option.splits)

lemma keeps_subscript: "(\<And>v. keeps f (k v)) \<Longrightarrow> keeps f (subscript r key k)"
  by (simp add: keeps_def subscript_def split: option.splits)

lemma keeps_raise: "keeps f (raise e)"
  by (simp add: keeps_def raise_def)

lemma keeps_for_rows: "(\<And>i r. keeps f (g i r)) \<Longrightarrow> keeps f (for_rows g i rs)"
proof (induction rs arbitrary: i)
  case Nil
  show ?case by (simp add: keeps_def)
next
  case (Cons r rs)
  have g: "keeps f (g i r)" and rest: "keeps f (for_rows g (Suc i) rs)"
    using Cons by simp_all
  show ?case
    unfolding keeps_def
  proof
    fix s
    show "f (snd (for_rows g i (r # rs) s)) = f s"
      using keepsD [OF g, of s] keepsD [OF rest, of "snd (g i r s)"]
      by (cases "g i r s") (auto split: option.splits)
  qed
qed

lemma same_outcome_try_except:
  "same_outcome b \<Longrightarrow> (\<And>e. same_outcome (h e)) \<Longrightarrow> same_outcome (try_except b h)"
  unfolding same_outcome_def
proof (intro allI)
  fix s s'
  assume b: "\<forall>s s'. fst (b s) = fst (b s')" and h: "\<And>e. \<forall>s s'. fst (h e s) = fst (h e s')"
  have "fst (b s) = fst (b s')" using b by blast
  then show "fst (try_except b h s) = fst (try_except b h s')"
    using h by (auto simp add: fst_try_except split: option.splits)
qed

lemma same_outcome_subscript:
  "(\<And>v. same_outcome (k v)) \<Longrightarrow> same_outcome (subscript r key k)"
  by (auto simp add: same_outcome_def subscript_def split: option.splits)

lemma same_outcome_basic:
  "same_outcome (raise e)"
  "same_outcome (logging_info msg)"
  "same_outcome (logging_warning msg e)"
  "same_outcome (logging_error msg e)"
  "same_outcome (ext w st c)"
  by (simp_all add: same_outcome_def raise_def logging_info_def logging_warning_def
      logging_error_def ext_def)

lemma same_outcome_for_rows:
  "(\<And>i r. same_outcome (g i r)) \<Longrightarrow> same_outcome (for_rows g i rs)"
proof (induction rs arbitrary: i)
  case Nil
  show ?case by (simp add: same_outcome_def)
next
  case (Cons r rs)
  have g: "\<And>s s'. fst (g i r s) = fst (g i r s')"
    and rest: "\<And>s s'. fst (for_rows g (Suc i) rs s) = fst (for_rows g (Suc i) rs s')"
    using Cons by (simp_all add: same_outcome_def)
  show ?case
    unfolding same_outcome_def
  proof (intro allI)
    fix s s'
    show "fst (for_rows g i (r # rs) s) = fst (for_rows g i (r # rs) s')"
      using g [of s s'] rest [of "snd (g i r s)" "snd (g i r s')"]
      by (cases "g i r s"; cases "g i r s'") (auto split: option.splits)
  qed
qed

lemma same_outcome_raises: "same_outcome p \<Longrightarrow> fst (p s) = raises p"
  by (simp add: same_outcome_def raises_def)


section \<open>What the methods leave unchanged\<close>

lemma keeps_block_Nil: "keeps f (block [])"
  by (simp add: keeps_def)

lemma keeps_block_Cons: "keeps f p \<Longrightarrow> keeps f (block ps) \<Longrightarrow> keeps f (block (p # ps))"
  by (simp add: keeps_def snd_block_Cons del: block.simps)

lemma same_outcome_block_Nil: "same_outcome (block [])"
  by (simp add: same_outcome_def)

lemma same_outcome_block_Cons:
  "same_outcome p \<Longrightarrow> same_outcome (block ps) \<Longrightarrow> same_outcome (block (p # ps))"
  unfolding same_outcome_def
proof (intro allI)
  fix s s'
  assume p: "\<forall>s s'. fst (p s) = fst (p s')" and ps: "\<forall>s s'. fst (block ps s) = fst (block ps s')"
  have "fst (p s) = fst (p s')" using p by blast
  moreover have "fst (block ps (snd (p s))) = fst (block ps (snd (p s')))" using ps by blast
  ultimately show "fst (block (p # ps) s) = fst (block (p # ps) s')"
    by (simp add: fst_block_Cons del: block.simps)
qed

lemma keeps_logging:
  "keeps state_machine (logging_info msg)"
  "keeps state_machine (logging_warning msg e)"
  "keeps state_machine (logging_error msg e)"
  "keeps fired (logging_info msg)"
  "keeps fired (logging_warning msg e)"
  "keeps fired (logging_error msg e)"
  "keeps submissions_attempted (logging_info msg)"
  "keeps submissions_attempted (logging_warning msg e)"
  "keeps submissions_attempted (logging_error msg e)"
  "keeps artifacts (logging_info msg)"
  "keeps artifacts (logging_warning msg e)"
  "keeps artifacts (logging_error msg e)"
  "keeps warnings (logging_info msg)"
  "keeps warnings (logging_error msg e)"
  by (simp_all add: keeps_def logging_info_def logging_warning_def logging_error_def
      submissions_attempted_def artifacts_def warnings_def)

lemma keeps_ext:
  "keeps state_machine (ext w st c)"
  "keeps fired (ext w st c)"
  "keeps warnings (ext w st c)"
  by (simp_all add: keeps_def ext_def warnings_def)

lemma keeps_attempts_ext:
  "attempt_of (st, c, outcome w st c) = [] \<Longrightarrow> keeps submissions_attempted (ext w st c)"
  by (simp add: keeps_def ext_def submissions_attempted_def)

lemma keeps_artifacts_ext:
  "artifact_of (st, c, outcome w st c) = [] \<Longrightarrow> keeps artifacts (ext w st c)"
  by (simp add: keeps_def ext_def artifacts_def)

lemmas keeps_intros =
  keeps_try_except keeps_block_Cons keeps_block_Nil keeps_subscript keeps_raise
  keeps_for_rows keeps_logging keeps_ext

lemmas same_outcome_intros =
  same_outcome_try_except same_outcome_block_Cons same_outcome_block_Nil
  same_outcome_subscript same_outcome_for_rows same_outcome_basic

lemma same_outcome_actions:
  "same_outcome (open_the_intranet_website w)"
  "same_outcome (log_in w)"
  "same_outcome (download_excel_file w)"
  "same_outcome (sales_form_steps w i r)"
  "same_outcome (fill_and_submit_sales_form w i r)"
  "same_outcome (fill_form_with_excel_data w)"
  "same_outcome (collect_results w)"
  "same_outcome (export_as_pdf w)"
  "same_outcome (log_out_action w)"
  unfolding open_the_intranet_website_def log_in_def download_excel_file_def
    sales_form_steps_def fill_and_submit_sales_form_def fill_form_with_excel_data_def
    collect_results_def export_as_pdf_def log_out_action_def
  by (intro same_outcome_intros)+

lemma keeps_state_machine_actions:
  "keeps state_machine (open_the_intranet_website w)"
  "keeps state_machine (log_in w)"
  "keeps state_machine (download_excel_file w)"
  "keeps state_machine (sales_form_steps w i r)"
  "keeps state_machine (fill_and_submit_sales_form w i r)"
  "keeps state_machine (fill_form_with_excel_data w)"
  "keeps state_machine (collect_results w)"
  "keeps state_machine (export_as_pdf w)"
  "keeps state_machine (log_out_action w)"
  unfolding open_the_intranet_website_def log_in_def download_excel_file_def
    sales_form_steps_def fill_and_submit_sales_form_def fill_form_with_excel_data_def
    collect_results_def export_as_pdf_def log_out_action_def
  by (intro keeps_intros)+

lemma keeps_fired_actions:
  "keeps fired (open_the_intranet_website w)"
  "keeps fired (log_in w)"
  "keeps fired (download_excel_file w)"
  "keeps fired (sales_form_steps w i r)"
  "keeps fired (fill_and_submit_sales_form w i r)"
  "keeps fired (fill_form_with_excel_data w)"
  "keeps fired (collect_results w)"
  "keeps fired (export_as_pdf w)"
  "keeps fired (log_out_action w)"
  unfolding open_the_intranet_website_def log_in_def download_excel_file_def
    sales_form_steps_def fill_and_submit_sales_form_def fill_form_with_excel_data_def
    collect_results_def export_as_pdf_def log_out_action_def
  by (intro keeps_intros)+


section \<open>The run, step by step\<close>

lemmas fst_actions = same_outcome_actions [THEN same_outcome_raises]
lemmas state_machine_actions = keeps_state_machine_actions [THEN keepsD]
lemmas fired_actions = keeps_fired_actions [THEN keepsD]

lemma logging_simps:
  "fst (logging_info msg s) = None"
  "fst (logging_warning msg e s) = None"
  "fst (logging_error msg e s) = None"
  "state_machine (snd (logging_info msg s)) = state_machine s"
  "state_machine (snd (logging_error msg e s)) = state_machine s"
  "state_machine (snd (logging_warning msg e s)) = state_machine s"
  "fired (snd (logging_info msg s)) = fired s"
  "fired (snd (logging_error msg e s)) = fired s"
  "fired (snd (logging_warning msg e s)) = fired s"
  by (simp_all add: logging_info_def logging_warning_def logging_error_def)

lemma fire_trigger_simps:
  "fst (fire_trigger t s) = (case fire t (state_machine s) of Inl e \<Rightarrow> Some e | Inr d \<Rightarrow> None)"
  "state_machine (snd (fire_trigger t s)) =
     (case fire t (state_machine s) of Inl e \<Rightarrow> state_machine s | Inr d \<Rightarrow> d)"
  "fired (snd (fire_trigger t s)) = fired s @ [t]"
  by (simp_all add: fire_trigger_def split: sum.splits)

lemma fire_from_other:
  "s \<noteq> start \<Longrightarrow> fire proceed_to_login s = Inl (IllegalTransitionError proceed_to_login s)"
  by (cases s) (simp_all add: fire_def transitions_def)

lemmas run_simps =
  fst_block_Cons snd_block_Cons fst_try_except snd_try_except
  fst_actions state_machine_actions fired_actions logging_simps fire_trigger_simps
  fire_handle_error fire_declared

lemma handler_simps:
  "fst (block [logging_error msg e, fire_trigger handle_error] s) = None"
  "state_machine (snd (block [logging_error msg e, fire_trigger handle_error] s)) = error"
  "fired (snd (block [logging_error msg e, fire_trigger handle_error] s)) = fired s @ [handle_error]"
  by (simp_all add: run_simps del: block.simps(2))

lemma run_returns: "fst (run w s) = None"
  unfolding run_def
  by (simp add: fst_try_except handler_simps del: block.simps split: option.splits)

lemma run_not_start:
  assumes "state_machine s \<noteq> start"
  shows "state_machine (snd (run w s)) = error"
    and "fired (snd (run w s)) = fired s @ [proceed_to_login, handle_error]"
  unfolding run_def using fire_from_other [OF assms]
  by (simp_all add: run_simps del: block.simps(2))



lemma first_failure:
  fixes r1 r2 r3 r4 r5 r6 r7 :: "exn option"
  obtains
    (1) e where "r1 = Some e"
  | (2) e where "r1 = None" "r2 = Some e"
  | (3) e where "r1 = None" "r2 = None" "r3 = Some e"
  | (4) e where "r1 = None" "r2 = None" "r3 = None" "r4 = Some e"
  | (5) e where "r1 = None" "r2 = None" "r3 = None" "r4 = None" "r5 = Some e"
  | (6) e where "r1 = None" "r2 = None" "r3 = None" "r4 = None" "r5 = None" "r6 = Some e"
  | (7) e where "r1 = None" "r2 = None" "r3 = None" "r4 = None" "r5 = None" "r6 = None"
      "r7 = Some e"
  | (8) "r1 = None" "r2 = None" "r3 = None" "r4 = None" "r5 = None" "r6 = None" "r7 = None"
  by ((cases r1; simp); (cases r2; simp); (cases r3; simp); (cases r4; simp);
      (cases r5; simp); (cases r6; simp); (cases r7; simp))

lemma run_start:
  assumes "state_machine s = start"
  shows "state_machine (snd (run w s)) =
     (if raises (open_the_intranet_website w) = None \<and> raises (log_in w) = None
        \<and> raises (download_excel_file w) = None \<and> raises (fill_form_with_excel_data w) = None
        \<and> raises (collect_results w) = None \<and> raises (export_as_pdf w) = None
        \<and> raises (log_out_action w) = None
      then completed else error)"
   and "fired (snd (run w s)) = fired s @
     (if raises (open_the_intranet_website w) \<noteq> None \<or> raises (log_in w) \<noteq> None
      then [proceed_to_login, handle_error]
      else if raises (download_excel_file w) \<noteq> None \<or> raises (fill_form_with_excel_data w) \<noteq> None
      then [proceed_to_login, process_sales_data, handle_error]
      else if raises (collect_results w) \<noteq> None \<or> raises (export_as_pdf w) \<noteq> None
      then [proceed_to_login, process_sales_data, export_results, handle_error]
      else if raises (log_out_action w) \<noteq> None
      then [proceed_to_login, process_sales_data, export_results, proceed_to_log_out, handle_error]
      else [proceed_to_login, process_sales_data, export_results, proceed_to_log_out,
            complete_task])"
proof -
  show "state_machine (snd (run w s)) =
     (if raises (open_the_intranet_website w) = None \<and> raises (log_in w) = None
        \<and> raises (download_excel_file w) = None \<and> raises (fill_form_with_excel_data w) = None
        \<and> raises (collect_results w) = None \<and> raises (export_as_pdf w) = None
        \<and> raises (log_out_action w) = None
      then completed else error)"
    by (rule first_failure [where ?r1.0 = "raises (open_the_intranet_website w)"
          and ?r2.0 = "raises (log_in w)" and ?r3.0 = "raises (download_excel_file w)"
          and ?r4.0 = "raises (fill_form_with_excel_data w)"
          and ?r5.0 = "raises (collect_results w)" and ?r6.0 = "raises (export_as_pdf w)"
          and ?r7.0 = "raises (log_out_action w)"];
      (unfold run_def, insert assms, simp add: run_simps del: block.simps(2)))
  show "fired (snd (run w s)) = fired s @
     (if raises (open_the_intranet_website w) \<noteq> None \<or> raises (log_in w) \<noteq> None
      then [proceed_to_login, handle_error]
      else if raises (download_excel_file w) \<noteq> None \<or> raises (fill_form_with_excel_data w) \<noteq> None
      then [proceed_to_login, process_sales_data, handle_error]
      else if raises (collect_results w) \<noteq> None \<or> raises (export_as_pdf w) \<noteq> None
      then [proceed_to_login, process_sales_data, export_results, handle_error]
      else if raises (log_out_action w) \<noteq> None
      then [proceed_to_login, process_sales_data, export_results, proceed_to_log_out, handle_error]
      else [proceed_to_login, process_sales_data, export_results, proceed_to_log_out,
            complete_task])"
    by (rule first_failure [where ?r1.0 = "raises (open_the_intranet_website w)"
          and ?r2.0 = "raises (log_in w)" and ?r3.0 = "raises (download_excel_file w)"
          and ?r4.0 = "raises (fill_form_with_excel_data w)"
          and ?r5.0 = "raises (collect_results w)" and ?r6.0 = "raises (export_as_pdf w)"
          and ?r7.0 = "raises (log_out_action w)"];
      (unfold run_def, insert assms, simp add: run_simps del: block.simps(2)))
qed

lemma fill_and_submit_returns: "fst (fill_and_submit_sales_form w i r s) = None"
  by (simp add: fill_and_submit_sales_form_def fst_try_except logging_simps split: option.splits)

lemma for_rows_returns: "fst (for_rows (fill_and_submit_sales_form w) i rs s) = None"
proof (induction rs arbitrary: i s)
  case Nil
  show ?case by simp
next
  case (Cons r rs)
  show ?case
    using fill_and_submit_returns [of w i r s] Cons [of "Suc i" "snd (fill_and_submit_sales_form w i r s)"]
    by (cases "fill_and_submit_sales_form w i r s") simp
qed

lemma fst_ext: "fst (ext w st c s) = outcome w st c"
  by (simp add: ext_def)

lemma raises_open_the_intranet_website:
  "raises (open_the_intranet_website w) = None \<longleftrightarrow>
     outcome w In_open_the_intranet_website Browser_configure = None
     \<and> outcome w In_open_the_intranet_website
          (Browser_goto ''https://robotsparebinindustries.com/'') = None"
  by (simp add: raises_def open_the_intranet_website_def fst_try_except fst_block_Cons
      fst_ext logging_simps raise_def del: block.simps(2) split: option.splits)

lemma raises_download_excel_file:
  "raises (download_excel_file w) = None \<longleftrightarrow>
     outcome w In_download_excel_file HTTP_new = None
     \<and> outcome w In_download_excel_file
          (HTTP_download ''https://robotsparebinindustries.com/SalesData.xlsx'') = None"
  by (simp add: raises_def download_excel_file_def fst_try_except fst_block_Cons
      fst_ext logging_simps raise_def del: block.simps(2) split: option.splits)

lemma raises_log_in:
  "raises (log_in w) = None \<longleftrightarrow>
     outcome w In_log_in Browser_page = None
     \<and> outcome w In_log_in (Page_fill ''#username'' (USERNAME w)) = None
     \<and> outcome w In_log_in (Page_fill ''#password'' (PASSWORD w)) = None
     \<and> outcome w In_log_in (Page_click ''button:text('Log in')'') = None"
  by (simp add: raises_def log_in_def fst_try_except fst_block_Cons
      fst_ext logging_simps raise_def del: block.simps(2) split: option.splits)

lemma raises_fill_form_with_excel_data:
  "raises (fill_form_with_excel_data w) = None \<longleftrightarrow>
     outcome w In_fill_form_with_excel_data Files_new = None
     \<and> outcome w In_fill_form_with_excel_data (Open_workbook ''SalesData.xlsx'') = None
     \<and> outcome w In_fill_form_with_excel_data (Read_worksheet_as_table ''data'') = None
     \<and> outcome w In_fill_form_with_excel_data Close_workbook = None"
  by (simp add: raises_def fill_form_with_excel_data_def fst_try_except fst_block_Cons
      fst_ext logging_simps raise_def for_rows_returns del: block.simps(2) split: option.splits)

lemma raises_collect_results:
  "raises (collect_results w) = None \<longleftrightarrow>
     outcome w In_collect_results Browser_page = None
     \<and> outcome w In_collect_results (Page_screenshot ''output/sales_summary.png'') = None"
  by (simp add: raises_def collect_results_def fst_try_except fst_block_Cons
      fst_ext logging_simps raise_def del: block.simps(2) split: option.splits)

lemma raises_export_as_pdf:
  "raises (export_as_pdf w) = None \<longleftrightarrow>
     outcome w In_export_as_pdf Browser_page = None
     \<and> outcome w In_export_as_pdf (Locator_inner_html ''#sales-results'') = None
     \<and> outcome w In_export_as_pdf PDF_new = None
     \<and> outcome w In_export_as_pdf (Html_to_pdf ''output/sales_results.pdf'') = None"
  by (simp add: raises_def export_as_pdf_def fst_try_except fst_block_Cons
      fst_ext logging_simps raise_def del: block.simps(2) split: option.splits)

lemma raises_log_out_action:
  "raises (log_out_action w) = None \<longleftrightarrow>
     outcome w In_log_out Browser_page = None
     \<and> outcome w In_log_out (Page_click ''text=Log out'') = None"
  by (simp add: raises_def log_out_action_def fst_try_except fst_block_Cons
      fst_ext logging_simps raise_def del: block.simps(2) split: option.splits)

lemmas raises_iff =
  raises_open_the_intranet_website raises_log_in raises_download_excel_file
  raises_fill_form_with_excel_data raises_collect_results raises_export_as_pdf
  raises_log_out_action

lemma run_not_start_eq:
  assumes "state_machine s \<noteq> start"
  shows "run w s =
    (None, s\<lparr>state_machine := error,
            logged := logged s @ [Info ''Starting the bot...'',
              Error ''Unexpected error occurred: ''
                (IllegalTransitionError proceed_to_login (state_machine s))],
            fired := fired s @ [proceed_to_login, handle_error]\<rparr>)"
  using fire_from_other [OF assms]
  by (simp add: run_def try_except_def logging_info_def logging_error_def fire_trigger_def
      fire_handle_error)


lemma raises_quiet_world:
  "raises (open_the_intranet_website (quiet_world rows)) = None"
  "raises (log_in (quiet_world rows)) = None"
  "raises (download_excel_file (quiet_world rows)) = None"
  "raises (fill_form_with_excel_data (quiet_world rows)) = None"
  "raises (collect_results (quiet_world rows)) = None"
  "raises (export_as_pdf (quiet_world rows)) = None"
  "raises (log_out_action (quiet_world rows)) = None"
  by (simp_all add: raises_iff quiet_world_def)

lemma state_machine_new_bot: "state_machine new_bot = start"
  by (simp add: new_bot_def initial_def)

text \<open>
  C3. On a freshly constructed bot, when none of the seven action methods raises, the
  run returns with the state machine in state \<open>completed\<close>, and the triggers fired are
  \<open>proceed_to_login\<close>, \<open>process_sales_data\<close>, \<open>export_results\<close>, \<open>proceed_to_log_out\<close>,
  \<open>complete_task\<close>, in this order, each once.
\<close>

theorem run_all_actions_succeed:
  assumes "raises (open_the_intranet_website w) = None"
    and "raises (log_in w) = None"
    and "raises (download_excel_file w) = None"
    and "raises (fill_form_with_excel_data w) = None"
    and "raises (collect_results w) = None"
    and "raises (export_as_pdf w) = None"
    and "raises (log_out_action w) = None"
  shows "fst (run w new_bot) = None
    \<and> state_machine (snd (run w new_bot)) = completed
    \<and> fired (snd (run w new_bot))
        = [proceed_to_login, process_sales_data, export_results, proceed_to_log_out,
           complete_task]"
  using assms run_start [OF state_machine_new_bot, of w]
  by (simp add: run_returns new_bot_def)

theorem run_all_actions_succeed_witness:
  "raises (open_the_intranet_website (quiet_world [example_row, example_row])) = None
   \<and> raises (log_in (quiet_world [example_row, example_row])) = None
   \<and> raises (download_excel_file (quiet_world [example_row, example_row])) = None
   \<and> raises (fill_form_with_excel_data (quiet_world [example_row, example_row])) = None
   \<and> raises (collect_results (quiet_world [example_row, example_row])) = None
   \<and> raises (export_as_pdf (quiet_world [example_row, example_row])) = None
   \<and> raises (log_out_action (quiet_world [example_row, example_row])) = None
   \<and> fst (run (quiet_world [example_row, example_row]) new_bot) = None
   \<and> state_machine (snd (run (quiet_world [example_row, example_row]) new_bot)) = completed
   \<and> fired (snd (run (quiet_world [example_row, example_row]) new_bot))
       = [proceed_to_login, process_sales_data, export_results, proceed_to_log_out,
          complete_task]"
  using run_all_actions_succeed [of "quiet_world [example_row, example_row]"]
  by (simp add: raises_quiet_world)

text \<open>
  C4. Every run returns (the exception handler of \<open>run\<close> catches whatever is raised),
  and when it returns the state machine is in state \<open>completed\<close> or in state \<open>error\<close>.
  Started in state \<open>start\<close>, it ends in \<open>completed\<close> exactly when none of the seven
  action methods raises, and in \<open>error\<close> exactly when one of them does.
\<close>

theorem run_ends_in_terminal_state:
  "fst (run w s) = None
   \<and> (state_machine (snd (run w s)) = completed \<or> state_machine (snd (run w s)) = error)
   \<and> (state_machine s = start \<longrightarrow>
        (state_machine (snd (run w s)) = completed \<longleftrightarrow>
           raises (open_the_intranet_website w) = None \<and> raises (log_in w) = None
           \<and> raises (download_excel_file w) = None
           \<and> raises (fill_form_with_excel_data w) = None
           \<and> raises (collect_results w) = None \<and> raises (export_as_pdf w) = None
           \<and> raises (log_out_action w) = None))
   \<and> (state_machine s = start \<longrightarrow>
        (state_machine (snd (run w s)) = error \<longleftrightarrow>
           \<not> (raises (open_the_intranet_website w) = None \<and> raises (log_in w) = None
           \<and> raises (download_excel_file w) = None
           \<and> raises (fill_form_with_excel_data w) = None
           \<and> raises (collect_results w) = None \<and> raises (export_as_pdf w) = None
           \<and> raises (log_out_action w) = None)))"
proof (cases "state_machine s = start")
  case True
  show ?thesis
    using True run_returns [of w s] by (simp add: run_start(1) [OF True])
next
  case False
  show ?thesis
    using False run_returns [of w s] by (simp add: run_not_start(1) [OF False])
qed

theorem run_ends_in_terminal_state_witness:
  "state_machine new_bot = start
   \<and> raises (log_out_action
        (world_failing_at In_log_out (Page_click ''text=Log out'') [example_row])) \<noteq> None
   \<and> fst (run (world_failing_at In_log_out (Page_click ''text=Log out'') [example_row])
        new_bot) = None
   \<and> state_machine
        (snd (run (world_failing_at In_log_out (Page_click ''text=Log out'') [example_row])
          new_bot)) = error"
  using run_ends_in_terminal_state
    [of "world_failing_at In_log_out (Page_click ''text=Log out'') [example_row]" new_bot]
  by (simp add: state_machine_new_bot raises_iff world_failing_at_def)

text \<open>
  C5. When \<open>download_excel_file\<close> raises, the run returns with the state machine in state
  \<open>error\<close>, and \<open>export_results\<close> is not among the triggers fired during the run.
\<close>

theorem download_failure_is_fatal:
  assumes "raises (download_excel_file w) \<noteq> None"
  shows "fst (run w s) = None
    \<and> state_machine (snd (run w s)) = error
    \<and> export_results \<notin> set (drop (length (fired s)) (fired (snd (run w s))))"
proof (cases "state_machine s = start")
  case True
  show ?thesis
    using assms run_returns [of w s] by (simp add: run_start [OF True])
next
  case False
  show ?thesis
    using run_returns [of w s] by (simp add: run_not_start [OF False])
qed

theorem download_failure_is_fatal_witness:
  "raises (download_excel_file
      (world_failing_at In_download_excel_file
        (HTTP_download ''https://robotsparebinindustries.com/SalesData.xlsx'') [example_row]))
     \<noteq> None
   \<and> state_machine
        (snd (run (world_failing_at In_download_excel_file
          (HTTP_download ''https://robotsparebinindustries.com/SalesData.xlsx'') [example_row])
          new_bot)) = error
   \<and> export_results \<notin> set (fired
        (snd (run (world_failing_at In_download_excel_file
          (HTTP_download ''https://robotsparebinindustries.com/SalesData.xlsx'') [example_row])
          new_bot)))"
  using download_failure_is_fatal
    [of "world_failing_at In_download_excel_file
          (HTTP_download ''https://robotsparebinindustries.com/SalesData.xlsx'') [example_row]"
        new_bot]
  by (simp add: raises_iff world_failing_at_def new_bot_def)

section \<open>One row of the worksheet\<close>

lemma snd_for_rows_Cons:
  "snd (for_rows (fill_and_submit_sales_form w) i (r # rs) s)
     = snd (for_rows (fill_and_submit_sales_form w) (Suc i) rs
         (snd (fill_and_submit_sales_form w i r s)))"
  using fill_and_submit_returns [of w i r s]
  by (cases "fill_and_submit_sales_form w i r s") simp

lemma keeps_warnings_sales_form_steps: "keeps warnings (sales_form_steps w i r)"
  unfolding sales_form_steps_def by (intro keeps_intros)+

lemma warnings_fill_and_submit:
  "warnings (snd (fill_and_submit_sales_form w i r s)) = warnings s @ warning_for w i r"
  using keepsD [OF keeps_warnings_sales_form_steps, of w i r s]
  by (simp add: fill_and_submit_sales_form_def snd_try_except fst_actions warning_for_def
      logging_warning_def warnings_def split: option.splits)

lemma attempts_block_ext_first:
  assumes "keeps submissions_attempted (block ps)"
  shows "submissions_attempted
      (snd (block (ext w (In_fill_and_submit_sales_form i) Browser_page # ps) s))
     = submissions_attempted s @ [i]"
proof -
  let ?s' = "snd (ext w (In_fill_and_submit_sales_form i) Browser_page s)"
  have first: "submissions_attempted ?s' = submissions_attempted s @ [i]"
    by (simp add: ext_def submissions_attempted_def)
  have rest: "submissions_attempted (snd (block ps ?s')) = submissions_attempted ?s'"
    using assms by (rule keepsD)
  show ?thesis
    using first rest by (simp add: snd_block_Cons del: block.simps(2))
qed

lemma attempts_sales_form_steps:
  "submissions_attempted (snd (sales_form_steps w i r s)) = submissions_attempted s @ [i]"
  unfolding sales_form_steps_def
  by (rule attempts_block_ext_first) (intro keeps_intros keeps_attempts_ext; simp)

lemma attempts_fill_and_submit:
  "submissions_attempted (snd (fill_and_submit_sales_form w i r s))
     = submissions_attempted s @ [i]"
  by (simp add: fill_and_submit_sales_form_def snd_try_except attempts_sales_form_steps
      keepsD [OF keeps_logging(8)] split: option.splits)

lemma attempts_for_rows:
  "submissions_attempted (snd (for_rows (fill_and_submit_sales_form w) i rs s))
     = submissions_attempted s @ [i..<i + length rs]"
proof (induction rs arbitrary: i s)
  case Nil
  show ?case by simp
next
  case (Cons r rs)
  have u: "[i..<i + length (r # rs)] = i # [Suc i..<Suc i + length rs]"
    by (simp add: upt_rec [of i "Suc (i + length rs)"] del: upt_Suc)
  have "submissions_attempted (snd (for_rows (fill_and_submit_sales_form w) i (r # rs) s))
      = submissions_attempted (snd (fill_and_submit_sales_form w i r s))
          @ [Suc i..<Suc i + length rs]"
    by (simp only: snd_for_rows_Cons Cons)
  also have "\<dots> = (submissions_attempted s @ [i]) @ [Suc i..<Suc i + length rs]"
    by (simp only: attempts_fill_and_submit)
  also have "\<dots> = submissions_attempted s @ [i..<i + length (r # rs)]"
    by (simp only: u append_assoc append_Cons append_Nil)
  finally show ?case .
qed

lemma warnings_for_rows:
  "warnings (snd (for_rows (fill_and_submit_sales_form w) i rs s))
     = warnings s @ concat (map (\<lambda>(j, r). warning_for w j r) (enumerate i rs))"
proof (induction rs arbitrary: i s)
  case Nil
  show ?case by simp
next
  case (Cons r rs)
  show ?case
    by (simp add: snd_for_rows_Cons Cons warnings_fill_and_submit del: for_rows.simps(2))
qed


text \<open>
  C9. For every world, row and state, \<open>fill_and_submit_sales_form\<close> returns: whatever
  the steps of its \<open>try\<close> raise (an error of a library call, or the \<open>KeyError\<close> of a row
  without one of the four columns) is caught and logged as a warning. The current state
  of the state machine and the triggers fired are as before the call.
\<close>

theorem fill_and_submit_never_raises:
  "fst (fill_and_submit_sales_form w i sales_rep s) = None
   \<and> state_machine (snd (fill_and_submit_sales_form w i sales_rep s)) = state_machine s
   \<and> fired (snd (fill_and_submit_sales_form w i sales_rep s)) = fired s
   \<and> warnings (snd (fill_and_submit_sales_form w i sales_rep s))
       = warnings s @ warning_for w i sales_rep"
  by (simp add: fill_and_submit_returns state_machine_actions fired_actions
      warnings_fill_and_submit)

theorem fill_and_submit_never_raises_witness:
  "raises (sales_form_steps (quiet_world []) 0 (example_row(''Sales'' := None)))
     = Some (KeyError ''Sales'')
   \<and> fst (fill_and_submit_sales_form (quiet_world []) 0 (example_row(''Sales'' := None))
        new_bot) = None
   \<and> state_machine
        (snd (fill_and_submit_sales_form (quiet_world []) 0 (example_row(''Sales'' := None))
          new_bot)) = start
   \<and> warnings
        (snd (fill_and_submit_sales_form (quiet_world []) 0 (example_row(''Sales'' := None))
          new_bot)) = [Warning ''Error submitting sales form: '' (KeyError ''Sales'')]"
proof -
  have r: "raises (sales_form_steps (quiet_world []) 0 (example_row(''Sales'' := None)))
      = Some (KeyError ''Sales'')"
    by (simp add: raises_def sales_form_steps_def subscript_def ext_def quiet_world_def
        example_row_def)
  show ?thesis
    using fill_and_submit_never_raises
      [of "quiet_world []" 0 "example_row(''Sales'' := None)" new_bot]
    by (simp add: r warning_for_def warnings_def new_bot_def initial_def)
qed

section \<open>The loop over the worksheet\<close>

lemma keeps_warnings_actions:
  "keeps warnings (open_the_intranet_website w)"
  "keeps warnings (log_in w)"
  "keeps warnings (download_excel_file w)"
  "keeps warnings (collect_results w)"
  "keeps warnings (export_as_pdf w)"
  "keeps warnings (log_out_action w)"
  unfolding open_the_intranet_website_def log_in_def download_excel_file_def
    collect_results_def export_as_pdf_def log_out_action_def
  by (intro keeps_intros)+

lemma keeps_attempts_actions:
  "keeps submissions_attempted (open_the_intranet_website w)"
  "keeps submissions_attempted (log_in w)"
  "keeps submissions_attempted (download_excel_file w)"
  "keeps submissions_attempted (collect_results w)"
  "keeps submissions_attempted (export_as_pdf w)"
  "keeps submissions_attempted (log_out_action w)"
  unfolding open_the_intranet_website_def log_in_def download_excel_file_def
    collect_results_def export_as_pdf_def log_out_action_def
  by (intro keeps_intros keeps_attempts_ext; simp)+

lemma fire_trigger_observations:
  "warnings (snd (fire_trigger t s)) = warnings s"
  "submissions_attempted (snd (fire_trigger t s)) = submissions_attempted s"
  "artifacts (snd (fire_trigger t s)) = artifacts s"
  by (simp_all add: fire_trigger_def warnings_def submissions_attempted_def artifacts_def
      split: sum.splits)

lemma ext_observations:
  "warnings (snd (ext w st c s)) = warnings s"
  "attempt_of (st, c, outcome w st c) = [] \<Longrightarrow>
     submissions_attempted (snd (ext w st c s)) = submissions_attempted s"
  by (simp_all add: ext_def warnings_def submissions_attempted_def)

lemma fill_form_success:
  assumes "raises (fill_form_with_excel_data w) = None"
  shows "warnings (snd (fill_form_with_excel_data w s))
      = warnings s @ concat (map (\<lambda>(j, r). warning_for w j r) (enumerate 0 (worksheet w)))"
    and "submissions_attempted (snd (fill_form_with_excel_data w s))
      = submissions_attempted s @ [0..<length (worksheet w)]"
  using assms [unfolded raises_fill_form_with_excel_data]
  by (simp_all add: fill_form_with_excel_data_def snd_try_except fst_block_Cons snd_block_Cons
      fst_ext for_rows_returns ext_observations warnings_for_rows attempts_for_rows
      del: block.simps(2))

lemmas warnings_actions = keeps_warnings_actions [THEN keepsD]
lemmas attempts_actions = keeps_attempts_actions [THEN keepsD]
lemmas logging_observations = keeps_logging(7-14) [THEN keepsD]

lemma run_success_observations:
  assumes "state_machine s = start"
    and "raises (open_the_intranet_website w) = None"
    and "raises (log_in w) = None"
    and "raises (download_excel_file w) = None"
    and "raises (fill_form_with_excel_data w) = None"
    and "raises (collect_results w) = None"
    and "raises (export_as_pdf w) = None"
    and "raises (log_out_action w) = None"
  shows "warnings (snd (run w s))
      = warnings s @ concat (map (\<lambda>(j, r). warning_for w j r) (enumerate 0 (worksheet w)))"
    and "submissions_attempted (snd (run w s))
      = submissions_attempted s @ [0..<length (worksheet w)]"
  unfolding run_def using assms
  by (simp_all add: run_simps warnings_actions attempts_actions logging_observations
      fire_trigger_observations fill_form_success del: block.simps(2))

text \<open>
  C6. A run on a freshly constructed bot whose worksheet has three rows, where the steps
  of the second row's submission raise \<open>e\<close>, the steps of the first and third do not, and
  none of the seven action methods raises: \<open>fill_and_submit_sales_form\<close> is entered once
  for each row, in the order of the worksheet; the only warning logged is the one for
  \<open>e\<close>; \<open>export_results\<close> is fired and the run returns in state \<open>completed\<close>.
\<close>

theorem one_failed_submission_does_not_abort:
  assumes "worksheet w = [r1, r2, r3]"
    and "raises (sales_form_steps w 0 r1) = None"
    and "raises (sales_form_steps w 1 r2) = Some e"
    and "raises (sales_form_steps w 2 r3) = None"
    and "raises (open_the_intranet_website w) = None"
    and "raises (log_in w) = None"
    and "raises (download_excel_file w) = None"
    and "raises (fill_form_with_excel_data w) = None"
    and "raises (collect_results w) = None"
    and "raises (export_as_pdf w) = None"
    and "raises (log_out_action w) = None"
  shows "fst (run w new_bot) = None
    \<and> submissions_attempted (snd (run w new_bot)) = [0, 1, 2]
    \<and> warnings (snd (run w new_bot)) = [Warning ''Error submitting sales form: '' e]
    \<and> export_results \<in> set (fired (snd (run w new_bot)))
    \<and> state_machine (snd (run w new_bot)) = completed"
proof -
  note ok = assms(5-11)
  have st: "state_machine new_bot = start"
    by (rule state_machine_new_bot)
  have "submissions_attempted (snd (run w new_bot)) = [0, 1, 2]"
    using run_success_observations(2) [OF st ok] assms(1)
    by (simp add: submissions_attempted_def new_bot_def)
  moreover have "warnings (snd (run w new_bot)) = [Warning ''Error submitting sales form: '' e]"
    using run_success_observations(1) [OF st ok] assms(1-4)
    by (simp add: warnings_def new_bot_def warning_for_def numeral_2_eq_2)
  moreover have "export_results \<in> set (fired (snd (run w new_bot)))"
    using run_start(2) [OF st, of w] ok by simp
  moreover have "state_machine (snd (run w new_bot)) = completed"
    using run_start(1) [OF st, of w] ok by simp
  ultimately show ?thesis
    by (simp add: run_returns)
qed


theorem one_failed_submission_does_not_abort_witness:
  "worksheet (world_failing_at (In_fill_and_submit_sales_form 1) (Page_click ''text=Submit'')
      [example_row, example_row, example_row]) = [example_row, example_row, example_row]
   \<and> raises (sales_form_steps
        (world_failing_at (In_fill_and_submit_sales_form 1) (Page_click ''text=Submit'')
          [example_row, example_row, example_row]) 1 example_row)
       = Some (ActionError ''Timeout'')
   \<and> submissions_attempted
        (snd (run (world_failing_at (In_fill_and_submit_sales_form 1)
          (Page_click ''text=Submit'') [example_row, example_row, example_row]) new_bot))
       = [0, 1, 2]
   \<and> warnings
        (snd (run (world_failing_at (In_fill_and_submit_sales_form 1)
          (Page_click ''text=Submit'') [example_row, example_row, example_row]) new_bot))
       = [Warning ''Error submitting sales form: '' (ActionError ''Timeout'')]
   \<and> export_results \<in> set (fired
        (snd (run (world_failing_at (In_fill_and_submit_sales_form 1)
          (Page_click ''text=Submit'') [example_row, example_row, example_row]) new_bot)))
   \<and> state_machine
        (snd (run (world_failing_at (In_fill_and_submit_sales_form 1)
          (Page_click ''text=Submit'') [example_row, example_row, example_row]) new_bot))
       = completed"
proof -
  let ?w = "world_failing_at (In_fill_and_submit_sales_form 1) (Page_click ''text=Submit'')
      [example_row, example_row, example_row]"
  have rows: "worksheet ?w = [example_row, example_row, example_row]"
    by (simp add: world_failing_at_def)
  have r1: "raises (sales_form_steps ?w 0 example_row) = None"
    by (simp add: raises_def sales_form_steps_def subscript_def ext_def logging_info_def
        world_failing_at_def example_row_def)
  have r2: "raises (sales_form_steps ?w 1 example_row) = Some (ActionError ''Timeout'')"
    by (simp add: raises_def sales_form_steps_def subscript_def ext_def logging_info_def
        world_failing_at_def example_row_def)
  have r3: "raises (sales_form_steps ?w 2 example_row) = None"
    by (simp add: raises_def sales_form_steps_def subscript_def ext_def logging_info_def
        world_failing_at_def example_row_def)
  have ok: "raises (open_the_intranet_website ?w) = None" "raises (log_in ?w) = None"
    "raises (download_excel_file ?w) = None" "raises (fill_form_with_excel_data ?w) = None"
    "raises (collect_results ?w) = None" "raises (export_as_pdf ?w) = None"
    "raises (log_out_action ?w) = None"
    by (simp_all add: raises_iff world_failing_at_def)
  show ?thesis
    using one_failed_submission_does_not_abort [OF rows r1 r2 r3 ok] rows r2 by simp
qed

section \<open>The export artifacts\<close>

lemma keeps_artifacts_actions:
  "keeps artifacts (open_the_intranet_website w)"
  "keeps artifacts (log_in w)"
  "keeps artifacts (download_excel_file w)"
  "keeps artifacts (sales_form_steps w i r)"
  "keeps artifacts (fill_and_submit_sales_form w i r)"
  "keeps artifacts (fill_form_with_excel_data w)"
  "keeps artifacts (log_out_action w)"
  unfolding open_the_intranet_website_def log_in_def download_excel_file_def
    sales_form_steps_def fill_and_submit_sales_form_def fill_form_with_excel_data_def
    log_out_action_def
  by (intro keeps_intros keeps_artifacts_ext; simp)+

lemmas artifacts_actions = keeps_artifacts_actions [THEN keepsD]

lemma artifacts_ext:
  "artifacts (snd (ext w st c s)) = artifacts s @ artifact_of (st, c, outcome w st c)"
  by (simp add: ext_def artifacts_def)

lemma artifacts_collect_results:
  assumes "raises (collect_results w) = None"
  shows "artifacts (snd (collect_results w s)) = artifacts s @ [''output/sales_summary.png'']"
  using assms [unfolded raises_collect_results]
  by (simp add: collect_results_def snd_try_except fst_block_Cons snd_block_Cons fst_ext
      artifacts_ext logging_simps logging_observations del: block.simps(2))

lemma artifacts_export_as_pdf:
  assumes "raises (export_as_pdf w) = None"
  shows "artifacts (snd (export_as_pdf w s)) = artifacts s @ [''output/sales_results.pdf'']"
  using assms [unfolded raises_export_as_pdf]
  by (simp add: export_as_pdf_def snd_try_except fst_block_Cons snd_block_Cons fst_ext
      artifacts_ext logging_simps logging_observations del: block.simps(2))

lemma run_artifacts_written:
  assumes "state_machine s = start"
    and "raises (open_the_intranet_website w) = None"
    and "raises (log_in w) = None"
    and "raises (download_excel_file w) = None"
    and "raises (fill_form_with_excel_data w) = None"
    and "raises (collect_results w) = None"
    and "raises (export_as_pdf w) = None"
  shows "artifacts (snd (run w s))
      = artifacts s @ [''output/sales_summary.png'', ''output/sales_results.pdf'']"
  unfolding run_def using assms
  by (cases "raises (log_out_action w)")
    (simp_all add: run_simps artifacts_actions artifacts_collect_results
      artifacts_export_as_pdf logging_observations fire_trigger_observations
      del: block.simps(2))

lemma artifacts_raise: "artifacts (snd (raise e s)) = artifacts s"
  by (simp add: raise_def)

lemma artifacts_collect_results_raises:
  assumes "raises (collect_results w) \<noteq> None"
  shows "artifacts (snd (collect_results w s)) = artifacts s"
  using assms [unfolded raises_collect_results]
  by (cases "outcome w In_collect_results Browser_page";
      cases "outcome w In_collect_results (Page_screenshot ''output/sales_summary.png'')")
    (simp_all add: collect_results_def snd_try_except fst_block_Cons snd_block_Cons fst_ext
      artifacts_ext artifacts_raise logging_simps logging_observations
      del: block.simps(2))

lemma artifacts_export_as_pdf_raises:
  assumes "raises (export_as_pdf w) \<noteq> None"
  shows "artifacts (snd (export_as_pdf w s)) = artifacts s"
  using assms [unfolded raises_export_as_pdf]
  by (cases "outcome w In_export_as_pdf Browser_page";
      cases "outcome w In_export_as_pdf (Locator_inner_html ''#sales-results'')";
      cases "outcome w In_export_as_pdf PDF_new";
      cases "outcome w In_export_as_pdf (Html_to_pdf ''output/sales_results.pdf'')")
    (simp_all add: export_as_pdf_def snd_try_except fst_block_Cons snd_block_Cons fst_ext
      artifacts_ext artifacts_raise logging_simps logging_observations
      del: block.simps(2))

lemma run_artifacts_before_screenshot:
  assumes "state_machine s = start"
    and "\<not> (raises (open_the_intranet_website w) = None \<and> raises (log_in w) = None
        \<and> raises (download_excel_file w) = None
        \<and> raises (fill_form_with_excel_data w) = None
        \<and> raises (collect_results w) = None)"
  shows "artifacts (snd (run w s)) = artifacts s"
  by (rule first_failure [where ?r1.0 = "raises (open_the_intranet_website w)"
        and ?r2.0 = "raises (log_in w)" and ?r3.0 = "raises (download_excel_file w)"
        and ?r4.0 = "raises (fill_form_with_excel_data w)"
        and ?r5.0 = "raises (collect_results w)" and ?r6.0 = "raises (export_as_pdf w)"
        and ?r7.0 = "raises (log_out_action w)"];
      (unfold run_def, insert assms,
       simp add: run_simps artifacts_actions artifacts_collect_results_raises
         logging_observations fire_trigger_observations del: block.simps(2)))

lemma run_artifacts_screenshot_only:
  assumes "state_machine s = start"
    and "raises (open_the_intranet_website w) = None"
    and "raises (log_in w) = None"
    and "raises (download_excel_file w) = None"
    and "raises (fill_form_with_excel_data w) = None"
    and "raises (collect_results w) = None"
    and "raises (export_as_pdf w) \<noteq> None"
  shows "artifacts (snd (run w s)) = artifacts s @ [''output/sales_summary.png'']"
proof -
  obtain e where e: "raises (export_as_pdf w) = Some e"
    using assms(7) by blast
  have pdf: "\<And>s'. artifacts (snd (export_as_pdf w s')) = artifacts s'"
    using assms(7) by (rule artifacts_export_as_pdf_raises)
  show ?thesis
    unfolding run_def using assms(1-6) e
    by (simp add: run_simps artifacts_actions artifacts_collect_results pdf
        logging_observations fire_trigger_observations del: block.simps(2))
qed

text \<open>
  C7 does not hold as stated. In a world where only the click on \<open>Log out\<close> raises,
  the run ends in state \<open>error\<close> after both export files have been written.
\<close>

theorem errored_run_with_artifacts_counterexample:
  "state_machine
     (snd (run (world_failing_at In_log_out (Page_click ''text=Log out'') [example_row])
       new_bot)) = error
   \<and> artifacts
       (snd (run (world_failing_at In_log_out (Page_click ''text=Log out'') [example_row])
         new_bot)) = [''output/sales_summary.png'', ''output/sales_results.pdf'']"
proof -
  let ?w = "world_failing_at In_log_out (Page_click ''text=Log out'') [example_row]"
  have st: "state_machine new_bot = start"
    by (rule state_machine_new_bot)
  have ok: "raises (open_the_intranet_website ?w) = None" "raises (log_in ?w) = None"
    "raises (download_excel_file ?w) = None" "raises (fill_form_with_excel_data ?w) = None"
    "raises (collect_results ?w) = None" "raises (export_as_pdf ?w) = None"
    by (simp_all add: raises_iff world_failing_at_def)
  have bad: "raises (log_out_action ?w) \<noteq> None"
    by (simp add: raises_iff world_failing_at_def)
  have "state_machine (snd (run ?w new_bot)) = error"
    using bad by (simp add: run_start(1) [OF st])
  moreover have "artifacts (snd (run ?w new_bot))
      = [''output/sales_summary.png'', ''output/sales_results.pdf'']"
    using run_artifacts_written [OF st ok] by (simp add: artifacts_def new_bot_def)
  ultimately show ?thesis
    by simp
qed

text \<open>
  C7, as amended. A run that ends in state \<open>error\<close> has written neither export artifact
  when the bot was not in state \<open>start\<close> or one of \<open>open_the_intranet_website\<close>, \<open>log_in\<close>,
  \<open>download_excel_file\<close>, \<open>fill_form_with_excel_data\<close>, \<open>collect_results\<close> raised. When
  these five returned and \<open>export_as_pdf\<close> raised, the screenshot has been written and the
  PDF has not. When these six returned, it is \<open>log_out\<close> that raised, and both files have
  been written. Nothing is removed afterwards.
\<close>

theorem errored_run_artifacts:
  assumes "state_machine (snd (run w s)) = error"
  shows "(state_machine s \<noteq> start \<or> raises (open_the_intranet_website w) \<noteq> None
          \<or> raises (log_in w) \<noteq> None \<or> raises (download_excel_file w) \<noteq> None
          \<or> raises (fill_form_with_excel_data w) \<noteq> None
          \<or> raises (collect_results w) \<noteq> None
        \<longrightarrow> artifacts (snd (run w s)) = artifacts s)
    \<and> (state_machine s = start \<and> raises (open_the_intranet_website w) = None
          \<and> raises (log_in w) = None \<and> raises (download_excel_file w) = None
          \<and> raises (fill_form_with_excel_data w) = None
          \<and> raises (collect_results w) = None \<and> raises (export_as_pdf w) \<noteq> None
        \<longrightarrow> artifacts (snd (run w s)) = artifacts s @ [''output/sales_summary.png''])
    \<and> (state_machine s = start \<and> raises (open_the_intranet_website w) = None
          \<and> raises (log_in w) = None \<and> raises (download_excel_file w) = None
          \<and> raises (fill_form_with_excel_data w) = None
          \<and> raises (collect_results w) = None \<and> raises (export_as_pdf w) = None
        \<longrightarrow> raises (log_out_action w) \<noteq> None
          \<and> artifacts (snd (run w s))
              = artifacts s @ [''output/sales_summary.png'', ''output/sales_results.pdf''])"
proof (intro conjI impI)
  assume a: "state_machine s \<noteq> start \<or> raises (open_the_intranet_website w) \<noteq> None
          \<or> raises (log_in w) \<noteq> None \<or> raises (download_excel_file w) \<noteq> None
          \<or> raises (fill_form_with_excel_data w) \<noteq> None
          \<or> raises (collect_results w) \<noteq> None"
  show "artifacts (snd (run w s)) = artifacts s"
  proof (cases "state_machine s = start")
    case True
    with a have "\<not> (raises (open_the_intranet_website w) = None \<and> raises (log_in w) = None
        \<and> raises (download_excel_file w) = None
        \<and> raises (fill_form_with_excel_data w) = None
        \<and> raises (collect_results w) = None)"
      by blast
    with True show ?thesis
      by (rule run_artifacts_before_screenshot)
  next
    case False
    then show ?thesis
      by (simp add: run_not_start_eq artifacts_def)
  qed
next
  assume "state_machine s = start \<and> raises (open_the_intranet_website w) = None
          \<and> raises (log_in w) = None \<and> raises (download_excel_file w) = None
          \<and> raises (fill_form_with_excel_data w) = None
          \<and> raises (collect_results w) = None \<and> raises (export_as_pdf w) \<noteq> None"
  then show "artifacts (snd (run w s)) = artifacts s @ [''output/sales_summary.png'']"
    by (simp add: run_artifacts_screenshot_only)
next
  assume b: "state_machine s = start \<and> raises (open_the_intranet_website w) = None
          \<and> raises (log_in w) = None \<and> raises (download_excel_file w) = None
          \<and> raises (fill_form_with_excel_data w) = None
          \<and> raises (collect_results w) = None \<and> raises (export_as_pdf w) = None"
  then show "raises (log_out_action w) \<noteq> None"
    using assms run_start(1) [of s w] by (auto split: if_splits)
next
  assume "state_machine s = start \<and> raises (open_the_intranet_website w) = None
          \<and> raises (log_in w) = None \<and> raises (download_excel_file w) = None
          \<and> raises (fill_form_with_excel_data w) = None
          \<and> raises (collect_results w) = None \<and> raises (export_as_pdf w) = None"
  then show "artifacts (snd (run w s))
      = artifacts s @ [''output/sales_summary.png'', ''output/sales_results.pdf'']"
    by (simp add: run_artifacts_written)
qed

theorem errored_run_artifacts_witness:
  "state_machine
     (snd (run (world_failing_at In_collect_results Browser_page [example_row]) new_bot))
     = error
   \<and> export_results \<in> set (fired
       (snd (run (world_failing_at In_collect_results Browser_page [example_row]) new_bot)))
   \<and> artifacts
       (snd (run (world_failing_at In_collect_results Browser_page [example_row]) new_bot))
     = []
   \<and> state_machine
       (snd (run (world_failing_at In_export_as_pdf PDF_new [example_row]) new_bot))
     = error
   \<and> artifacts
       (snd (run (world_failing_at In_export_as_pdf PDF_new [example_row]) new_bot))
     = [''output/sales_summary.png'']"
proof -
  let ?w = "world_failing_at In_collect_results Browser_page [example_row]"
  let ?v = "world_failing_at In_export_as_pdf PDF_new [example_row]"
  have st: "state_machine new_bot = start"
    by (rule state_machine_new_bot)
  have w: "raises (open_the_intranet_website ?w) = None" "raises (log_in ?w) = None"
    "raises (download_excel_file ?w) = None" "raises (fill_form_with_excel_data ?w) = None"
    "raises (collect_results ?w) \<noteq> None"
    by (simp_all add: raises_iff world_failing_at_def)
  have v: "raises (open_the_intranet_website ?v) = None" "raises (log_in ?v) = None"
    "raises (download_excel_file ?v) = None" "raises (fill_form_with_excel_data ?v) = None"
    "raises (collect_results ?v) = None" "raises (export_as_pdf ?v) \<noteq> None"
    by (simp_all add: raises_iff world_failing_at_def)
  have ew: "state_machine (snd (run ?w new_bot)) = error"
    using w by (simp add: run_start(1) [OF st])
  have ev: "state_machine (snd (run ?v new_bot)) = error"
    using v by (simp add: run_start(1) [OF st])
  have fw: "export_results \<in> set (fired (snd (run ?w new_bot)))"
    using w by (simp add: run_start(2) [OF st])
  have e: "artifacts new_bot = []"
    by (simp add: artifacts_def new_bot_def)
  show ?thesis
    using errored_run_artifacts [OF ew] errored_run_artifacts [OF ev] w v st ew ev fw e
    by simp
qed

section \<open>Running a bot twice\<close>

text \<open>
  C8 does not hold as stated. A second run on the same bot, in a world where no call
  raises, finds the machine in state \<open>completed\<close>: \<open>proceed_to_login\<close> is fired from
  that state and raises, no external call is made, and the run ends in state \<open>error\<close>.
\<close>

theorem second_run_counterexample:
  "state_machine (snd (run (quiet_world []) new_bot)) = completed
   \<and> state_machine (snd (run (quiet_world []) (snd (run (quiet_world []) new_bot)))) = error
   \<and> last (logged (snd (run (quiet_world []) (snd (run (quiet_world []) new_bot)))))
       = Error ''Unexpected error occurred: ''
           (IllegalTransitionError proceed_to_login completed)
   \<and> calls (snd (run (quiet_world []) (snd (run (quiet_world []) new_bot))))
       = calls (snd (run (quiet_world []) new_bot))"
proof -
  let ?s = "snd (run (quiet_world []) new_bot)"
  have first: "state_machine ?s = completed"
    using run_start(1) [OF state_machine_new_bot, of "quiet_world []"]
    by (simp add: raises_quiet_world)
  then have "state_machine ?s \<noteq> start"
    by simp
  then have "run (quiet_world []) ?s =
    (None, ?s\<lparr>state_machine := error,
            logged := logged ?s @ [Info ''Starting the bot...'',
              Error ''Unexpected error occurred: ''
                (IllegalTransitionError proceed_to_login (state_machine ?s))],
            fired := fired ?s @ [proceed_to_login, handle_error]\<rparr>)"
    by (rule run_not_start_eq)
  with first show ?thesis
    by simp
qed

text \<open>
  C8, as amended. The state machine is in state \<open>start\<close> when the bot is constructed;
  \<open>run\<close> does not set it, and fires \<open>proceed_to_login\<close> in whatever state the machine is
  in. On a bot that is not in state \<open>start\<close> (after an earlier run, say) that trigger
  raises \<open>IllegalTransitionError\<close>: the run makes no external call, logs the error, fires
  \<open>handle_error\<close> and returns in state \<open>error\<close>.
\<close>

theorem run_fires_from_current_state:
  "state_machine new_bot = start
   \<and> (state_machine s \<noteq> start \<longrightarrow>
        run w s =
          (None, s\<lparr>state_machine := error,
                  logged := logged s @ [Info ''Starting the bot...'',
                    Error ''Unexpected error occurred: ''
                      (IllegalTransitionError proceed_to_login (state_machine s))],
                  fired := fired s @ [proceed_to_login, handle_error]\<rparr>))"
  by (simp add: state_machine_new_bot run_not_start_eq)

theorem run_fires_from_current_state_witness:
  "state_machine (new_bot\<lparr>state_machine := error\<rparr>) \<noteq> start
   \<and> run (quiet_world [example_row]) (new_bot\<lparr>state_machine := error\<rparr>)
       = (None, new_bot\<lparr>state_machine := error,
                  logged := [Info ''Starting the bot...'',
                    Error ''Unexpected error occurred: ''
                      (IllegalTransitionError proceed_to_login error)],
                  fired := [proceed_to_login, handle_error]\<rparr>)"
  using run_fires_from_current_state
    [of "new_bot\<lparr>state_machine := error\<rparr>" "quiet_world [example_row]"]
  by (simp add: new_bot_def)

end
